theory Spec2Isabelle
  imports Main "HOL-Library.Word"
begin

section \<open>The allocator of alloc.c as state-passing functions\<close>

text \<open>
  The program keeps three globals (\<open>head\<close>, \<open>requested_size\<close>, \<open>allocated_size\<close>) and
  writes \<open>mem_block\<close> headers into the memory it obtains from \<open>sbrk\<close>. The model is for
  an LP64 target with pages of 4096 bytes: \<open>size_t\<close> and pointers are 64-bit words whose
  arithmetic wraps, and \<open>sizeof(mem_block)\<close> is 40 (8 + 4 + 4 padding + 8 + 8 + 8).

  Memory is read in two ways: \<open>blocks\<close> gives the header found at an address and \<open>bytes\<close>
  the payload byte found there. Both are total, as memory is: a header that was merged
  away stays where it was written until something overwrites it, exactly as in the C
  program. The two views are kept apart: a store to a header field changes \<open>blocks\<close>
  only and \<open>memset\<close> and \<open>memcpy\<close> change \<open>bytes\<close> only. So \<open>bytes\<close> is the contents of the
  payloads and not the byte image of the headers, and no statement below gives the
  value of \<open>bytes\<close> at an address where a header lies. A store to a header field is
  not checked against the memory map; the ranges of \<open>memset\<close> and \<open>memcpy\<close> are.
\<close>

type_synonym addr = "64 word"
type_synonym size_t = "64 word"

abbreviation NULL :: addr where
  "NULL \<equiv> 0"

text \<open>
  \<open>struct mem_block\<close> (lines 16-22). The fields are \<open>size\<close>, \<open>free\<close>, \<open>ptr\<close>, \<open>next\<close> and
  \<open>prev\<close>; \<open>free\<close> is an \<open>int\<close> that the program only sets to 0 or 1 and tests for being
  non-zero, so it is a truth value here.
\<close>

record mem_block =
  bsize :: size_t
  bfree :: bool
  bptr :: addr
  bnext :: addr
  bprev :: addr

text \<open>
  The state: memory, the three globals of lines 24-26, and the break with the two
  bounds the operating system keeps for it, the start of the heap and the limit.
\<close>

record heap =
  blocks :: "addr \<Rightarrow> mem_block"
  bytes :: "addr \<Rightarrow> 8 word"
  head :: addr
  requested_size :: size_t
  allocated_size :: size_t
  brk :: addr
  brk_min :: addr
  brk_max :: addr

definition sizeof_mem_block :: size_t where
  "sizeof_mem_block = 40"

text \<open>Field assignments \<open>b->size = v\<close>, \<open>b->free = v\<close>, ... through a header pointer.\<close>

definition set_size :: "heap \<Rightarrow> addr \<Rightarrow> size_t \<Rightarrow> heap" where
  "set_size s b v = s\<lparr>blocks := (blocks s)(b := (blocks s b)\<lparr>bsize := v\<rparr>)\<rparr>"

definition set_free :: "heap \<Rightarrow> addr \<Rightarrow> bool \<Rightarrow> heap" where
  "set_free s b v = s\<lparr>blocks := (blocks s)(b := (blocks s b)\<lparr>bfree := v\<rparr>)\<rparr>"

definition set_ptr :: "heap \<Rightarrow> addr \<Rightarrow> addr \<Rightarrow> heap" where
  "set_ptr s b v = s\<lparr>blocks := (blocks s)(b := (blocks s b)\<lparr>bptr := v\<rparr>)\<rparr>"

definition set_next :: "heap \<Rightarrow> addr \<Rightarrow> addr \<Rightarrow> heap" where
  "set_next s b v = s\<lparr>blocks := (blocks s)(b := (blocks s b)\<lparr>bnext := v\<rparr>)\<rparr>"

definition set_prev :: "heap \<Rightarrow> addr \<Rightarrow> addr \<Rightarrow> heap" where
  "set_prev s b v = s\<lparr>blocks := (blocks s)(b := (blocks s b)\<lparr>bprev := v\<rparr>)\<rparr>"

text \<open>
  Modelled from the spec: the operating system's break primitive \<open>sbrk\<close> is not part of
  the repository. \<open>ExtendBreak(deltaBytes)\<close> takes a signed delta, returns the old break
  and moves the break by the delta, or returns the failure sentinel \<open>(void *) -1\<close> and
  changes nothing. The code passes a \<open>size_t\<close>, which \<open>sbrk\<close> reads as an \<open>intptr_t\<close>: the
  delta is \<open>sint incr\<close>, and a sum \<open>sizeof(mem_block) + size\<close> of \<open>2^63\<close> or more is a
  negative delta that lowers the break. The call is granted when the new break lies
  between the start of the heap \<open>brk_min\<close> and the limit \<open>brk_max\<close>. A delta of 0 is
  granted and returns the current break, as \<open>sbrk(0)\<close> does. The two bounds are
  parameters of the state; the states below start the heap at 4096 and limit it to
  65536 or less.
\<close>

definition sbrk :: "heap \<Rightarrow> 64 word \<Rightarrow> addr \<times> heap" where
  "sbrk s incr =
     (if uint (brk_min s) \<le> uint (brk s) + sint incr
         \<and> uint (brk s) + sint incr \<le> uint (brk_max s)
      then (brk s, s\<lparr>brk := brk s + incr\<rparr>)
      else (- 1, s))"

text \<open>
  Modelled from the spec: \<open>memset\<close> and \<open>memcpy\<close> of the C library, on the byte store.
  \<open>a - p < n\<close> in word arithmetic says that \<open>a\<close> is one of \<open>p, p + 1, ..., p + (n - 1)\<close>.
\<close>

definition memset :: "(addr \<Rightarrow> 8 word) \<Rightarrow> addr \<Rightarrow> 8 word \<Rightarrow> size_t \<Rightarrow> (addr \<Rightarrow> 8 word)" where
  "memset m p c n = (\<lambda>a. if a - p < n then c else m a)"

definition memcpy :: "(addr \<Rightarrow> 8 word) \<Rightarrow> addr \<Rightarrow> addr \<Rightarrow> size_t \<Rightarrow> (addr \<Rightarrow> 8 word)" where
  "memcpy m dst src n = (\<lambda>a. if a - dst < n then m (src + (a - dst)) else m a)"

text \<open>
  What can stop the program: a failing \<open>assert\<close> aborts, \<open>memcpy\<close> through a null
  destination dereferences the null pointer, and a \<open>memset\<close> or \<open>memcpy\<close> over bytes that
  are not mapped is a segmentation fault.
\<close>

datatype fault = AssertionFailed | NullDereference | SegmentationFault

text \<open>
  The memory map is the operating system's, like the break, and not part of the
  repository. The heap is mapped in whole pages: the process can read and write the
  bytes from the start of the heap up to the first page boundary at or after the
  break, and no others that the allocator could come by. \<open>accessible s p n\<close> says that
  the \<open>n\<close> bytes at \<open>p\<close> are among them (no byte is touched when \<open>n\<close> is 0).
\<close>

definition page_size :: nat where
  "page_size = 4096"

definition mapped_end :: "heap \<Rightarrow> nat" where
  "mapped_end s = (unat (brk s) + (page_size - 1)) div page_size * page_size"

definition accessible :: "heap \<Rightarrow> addr \<Rightarrow> size_t \<Rightarrow> bool" where
  "accessible s p n =
     (n = 0 \<or> unat (brk_min s) \<le> unat p \<and> unat p + unat n \<le> mapped_end s)"

subsection \<open>Helpers (alloc.c, lines 240-284)\<close>

definition get_addr :: "addr \<Rightarrow> addr" where
  "get_addr ptr = ptr - sizeof_mem_block"

definition coalesce_prev :: "heap \<Rightarrow> addr \<Rightarrow> heap" where
  "coalesce_prev s block =
     (if bprev (blocks s block) \<noteq> NULL \<and> bfree (blocks s (bprev (blocks s block))) then
        let s1 = set_size s block
                   (bsize (blocks s block)
                     + (bsize (blocks s (bprev (blocks s block))) + sizeof_mem_block));
            s2 = set_prev s1 block (bprev (blocks s1 (bprev (blocks s1 block))));
            s3 = (if bprev (blocks s2 block) \<noteq> NULL
                  then set_next s2 (bprev (blocks s2 block)) block
                  else s2\<lparr>head := block\<rparr>)
        in s3\<lparr>requested_size := requested_size s3 - sizeof_mem_block\<rparr>
      else s)"

definition coalesce_next :: "heap \<Rightarrow> addr \<Rightarrow> heap" where
  "coalesce_next s block =
     (if bnext (blocks s block) \<noteq> NULL \<and> bfree (blocks s (bnext (blocks s block))) then
        let s1 = set_size s (bnext (blocks s block))
                   (bsize (blocks s (bnext (blocks s block)))
                     + (bsize (blocks s block) + sizeof_mem_block));
            s2 = set_prev s1 (bnext (blocks s1 block)) (bprev (blocks s1 block));
            s3 = (if bprev (blocks s2 block) \<noteq> NULL
                  then set_next s2 (bprev (blocks s2 block)) (bnext (blocks s2 block))
                  else s2\<lparr>head := bnext (blocks s2 block)\<rparr>)
        in s3\<lparr>requested_size := requested_size s3 - sizeof_mem_block\<rparr>
      else s)"

definition split_mem :: "heap \<Rightarrow> addr \<Rightarrow> size_t \<Rightarrow> heap" where
  "split_mem s block sz =
     (let new_block = bptr (blocks s block) + sz;
          s1 = set_size s new_block (bsize (blocks s block) - sz - sizeof_mem_block);
          s2 = set_free s1 new_block True;
          s3 = set_ptr s2 new_block (new_block + sizeof_mem_block);
          s4 = set_next s3 new_block block;
          s5 = (if bprev (blocks s4 block) \<noteq> NULL
                then set_next s4 (bprev (blocks s4 block)) new_block
                else s4\<lparr>head := new_block\<rparr>);
          s6 = set_prev s5 new_block (bprev (blocks s5 block));
          s7 = set_size s6 block sz
      in set_prev s7 block new_block)"

subsection \<open>malloc (lines 103-142)\<close>

text \<open>
  The \<open>while (p)\<close> loop of lines 108-119. It returns \<open>chosen\<close> and the state; on a
  registry whose \<open>next\<close> links form a cycle without a fitting block the loop does not
  end, which is the value \<open>None\<close>.
\<close>

partial_function (option) malloc_scan :: "heap \<Rightarrow> addr \<Rightarrow> size_t \<Rightarrow> (addr \<times> heap) option" where
  "malloc_scan s p sz =
     (if p = NULL then Some (NULL, s)
      else if bfree (blocks s p) \<and> sz \<le> bsize (blocks s p) then
        (if 2 * sz \<le> bsize (blocks s p) \<and> 1024 \<le> bsize (blocks s p) - sz
         then let s1 = split_mem s p sz
              in Some (p, s1\<lparr>requested_size := requested_size s1 + sizeof_mem_block\<rparr>)
         else Some (p, s))
      else malloc_scan s (bnext (blocks s p)) sz)"

declare malloc_scan.simps [code]

text \<open>Lines 126-141: growth through \<open>sbrk\<close> and insertion of the new block at the head.\<close>

definition malloc_grow :: "heap \<Rightarrow> size_t \<Rightarrow> addr \<times> heap" where
  "malloc_grow s sz =
     (let (chosen, s1) = sbrk s (sizeof_mem_block + sz) in
      if chosen = - 1 then (NULL, s1)
      else
        let s2 = set_ptr s1 chosen (chosen + sizeof_mem_block);
            s3 = set_size s2 chosen sz;
            s4 = set_free s3 chosen False;
            s5 = set_next s4 chosen (head s4);
            s6 = (if head s5 \<noteq> NULL
                  then let t = set_prev s5 chosen (bprev (blocks s5 (head s5)))
                       in set_prev t (head t) chosen
                  else set_prev s5 chosen NULL);
            s7 = s6\<lparr>head := chosen\<rparr>;
            s8 = s7\<lparr>allocated_size := allocated_size s7 + (sz + sizeof_mem_block)\<rparr>;
            s9 = s8\<lparr>requested_size := requested_size s8 + (sz + sizeof_mem_block)\<rparr>
        in (bptr (blocks s9 chosen), s9))"

definition malloc :: "heap \<Rightarrow> size_t \<Rightarrow> (addr \<times> heap) option" where
  "malloc s sz =
     (if sz = 0 then Some (NULL, s)
      else
        case (if sz \<le> allocated_size s - requested_size s
              then malloc_scan s (head s) sz
              else Some (NULL, s)) of
          None \<Rightarrow> None
        | Some (chosen, s1) \<Rightarrow>
            if chosen \<noteq> NULL then
              let s2 = set_free s1 chosen False;
                  s3 = s2\<lparr>requested_size := requested_size s2 + bsize (blocks s2 chosen)\<rparr>
              in Some (bptr (blocks s3 chosen), s3)
            else Some (malloc_grow s1 sz))"

subsection \<open>calloc (lines 74-80)\<close>

text \<open>
  Line 78 runs \<open>memset(ptr, 0, totalSize)\<close> on whatever non-null pointer \<open>malloc\<close> has
  returned; the call comes back only if all of the range is mapped.
\<close>

definition calloc :: "heap \<Rightarrow> size_t \<Rightarrow> size_t \<Rightarrow> (fault + addr \<times> heap) option" where
  "calloc s num sz =
     (let totalSize = num * sz in
      case malloc s totalSize of
        None \<Rightarrow> None
      | Some (ptr, s1) \<Rightarrow>
          if ptr = NULL then Some (Inr (NULL, s1))
          else if accessible s1 ptr totalSize
          then Some (Inr (ptr, s1\<lparr>bytes := memset (bytes s1) ptr 0 totalSize\<rparr>))
          else Some (Inl SegmentationFault))"

subsection \<open>free (lines 160-168)\<close>

definition free :: "heap \<Rightarrow> addr \<Rightarrow> heap" where
  "free s ptr =
     (if ptr = NULL then s
      else
        let block_ptr = get_addr ptr in
        if bfree (blocks s block_ptr) then s
        else
          let s1 = set_free s block_ptr True;
              s2 = s1\<lparr>requested_size := requested_size s1 - bsize (blocks s1 block_ptr)\<rparr>;
              s3 = coalesce_prev s2 block_ptr
          in coalesce_next s3 block_ptr)"

subsection \<open>realloc (lines 215-236)\<close>

text \<open>
  Lines 231-235, the allocate-copy-release path. The copy through a null \<open>result\<close>
  touches memory when \<open>minSize\<close> is not 0, and the copy comes back only if both of its
  ranges are mapped.
\<close>

definition realloc_move :: "heap \<Rightarrow> addr \<Rightarrow> size_t \<Rightarrow> size_t \<Rightarrow> (fault + addr \<times> heap) option" where
  "realloc_move s ptr sz oldSize =
     (case malloc s sz of
        None \<Rightarrow> None
      | Some (result, s1) \<Rightarrow>
          let minSize = (if sz \<le> oldSize then sz else oldSize) in
          if result = NULL \<and> minSize \<noteq> 0 then Some (Inl NullDereference)
          else if \<not> (accessible s1 result minSize \<and> accessible s1 ptr minSize)
          then Some (Inl SegmentationFault)
          else
            let s2 = s1\<lparr>bytes := memcpy (bytes s1) result ptr minSize\<rparr>
            in Some (Inr (result, free s2 ptr)))"

definition realloc :: "heap \<Rightarrow> addr \<Rightarrow> size_t \<Rightarrow> (fault + addr \<times> heap) option" where
  "realloc s0 ptr sz =
     (let s = (if sz \<le> 0 then free s0 ptr else s0) in
      if ptr = NULL then map_option Inr (malloc s sz)
      else
        let block = get_addr ptr in
        if bptr (blocks s block) \<noteq> ptr then Some (Inl AssertionFailed)
        else if bfree (blocks s block) then Some (Inl AssertionFailed)
        else
          let oldSize = bsize (blocks s block) in
          if sz \<le> oldSize then Some (Inr (ptr, s))
          else if bprev (blocks s block) \<noteq> NULL \<and> bfree (blocks s (bprev (blocks s block)))
          then
            if sz \<le> oldSize + bsize (blocks s (bprev (blocks s block))) + sizeof_mem_block
            then
              let s1 = s\<lparr>requested_size :=
                            requested_size s + bsize (blocks s (bprev (blocks s block)))\<rparr>;
                  s2 = coalesce_prev s1 block
              in Some (Inr (bptr (blocks s2 block), s2))
            else realloc_move s ptr sz oldSize
          else realloc_move s ptr sz oldSize)"

subsection \<open>The initial state and some runs from it\<close>

text \<open>
  At program start the three globals are zero. \<open>heap_init b m\<close> is that state with the
  heap starting at \<open>b\<close> (the break is there), the limit at \<open>m\<close> and zeroed memory. \<open>after_malloc s sz\<close> is the state
  that a call \<open>malloc(sz)\<close> leaves behind.
\<close>

abbreviation no_block :: mem_block where
  "no_block \<equiv> \<lparr>bsize = 0, bfree = False, bptr = NULL, bnext = NULL, bprev = NULL\<rparr>"

definition heap_init :: "addr \<Rightarrow> addr \<Rightarrow> heap" where
  "heap_init b m =
     \<lparr>blocks = (\<lambda>_. no_block), bytes = (\<lambda>_. 0), head = NULL,
      requested_size = 0, allocated_size = 0, brk = b, brk_min = b, brk_max = m\<rparr>"

definition after_malloc :: "heap \<Rightarrow> size_t \<Rightarrow> heap" where
  "after_malloc s sz = (case malloc s sz of Some (p, s') \<Rightarrow> s' | None \<Rightarrow> s)"

text \<open>The break starts at 4096 and may grow to 65536.\<close>

definition heap0 :: heap where
  "heap0 = heap_init 4096 65536"

text \<open>\<open>a = malloc(16)\<close>: block A at 4096, \<open>a = 4136\<close>.\<close>

definition heapA :: heap where
  "heapA = after_malloc heap0 16"



text \<open>
  \<open>a = malloc(16); b = malloc(SIZE_MAX - 39)\<close>: the request \<open>sizeof(mem_block) + size\<close>
  wraps to \<open>sbrk(0)\<close>, which returns the break 4152 and leaves it there. Block B at 4152
  has size \<open>2^64 - 40\<close> and \<open>b = 4192\<close>.
\<close>

definition heapAH :: heap where
  "heapAH = after_malloc heapA (- 40)"

text \<open>... followed by \<open>c = malloc(16)\<close>, which gets 4152 from \<open>sbrk\<close> again.\<close>

definition heapAHC :: heap where
  "heapAHC = after_malloc heapAH 16"

text \<open>... followed by \<open>free(c)\<close>.\<close>

definition heapAHC_freed :: heap where
  "heapAHC_freed = free heapAHC 4192"

text \<open>
  \<open>a = malloc(16); b = malloc(SIZE_MAX - 39); free(b); b = malloc(16);
  b = malloc(SIZE_MAX - 39); free(b)\<close>, state by state.
\<close>

definition heapAH_freed :: heap where
  "heapAH_freed = free heapAH 4192"

definition heapANB :: heap where
  "heapANB = after_malloc heapAH_freed 16"

definition heapANB_grown :: heap where
  "heapANB_grown = after_malloc heapANB (- 40)"

definition heapANB_freed :: heap where
  "heapANB_freed = free heapANB_grown 4192"

text \<open>A heap whose break cannot grow beyond the first block of 16 bytes.\<close>

definition heap_small :: heap where
  "heap_small = heap_init 4096 4152"

definition heap_smallA :: heap where
  "heap_smallA = after_malloc heap_small 16"

text \<open>\<open>p = malloc(2048); free(p)\<close>: one free block of 2048 bytes at 4096.\<close>

definition heapL_freed :: heap where
  "heapL_freed = free (after_malloc heap0 2048) 4136"

text \<open>
  \<open>a = malloc(16); b = malloc(SIZE_MAX - 40)\<close>: the request \<open>sizeof(mem_block) + size\<close>
  is \<open>2^64 - 1\<close>, which \<open>sbrk\<close> reads as \<open>-1\<close>. The break goes down from 4152 to 4151,
  and block B at 4152 has size \<open>2^64 - 41\<close> and \<open>b = 4192\<close>.
\<close>

definition heapA_lowered :: heap where
  "heapA_lowered = after_malloc heapA (- 41)"

text \<open>The initial state with every payload byte set to \<open>0xAB\<close>.\<close>

definition heap_dirty :: heap where
  "heap_dirty = heap0\<lparr>bytes := (\<lambda>_. 171)\<rparr>"

section \<open>Facts\<close>

lemmas setters = set_size_def set_free_def set_ptr_def set_next_def set_prev_def

text \<open>
  For the evaluation of a call on a concrete state, a \<open>let\<close> is unfolded once its
  argument has been evaluated.
\<close>

lemma Let_heap:
  "Let \<lparr>blocks = b, bytes = y, head = h, requested_size = r, allocated_size = a,
         brk = k, brk_min = l, brk_max = m\<rparr> f
   = f \<lparr>blocks = b, bytes = y, head = h, requested_size = r, allocated_size = a,
         brk = k, brk_min = l, brk_max = m\<rparr>"
  by (simp add: Let_def)

lemma Let_pair: "Let (x, y) f = f (x, y)"
  by (simp add: Let_def)

lemmas run_defs = after_malloc_def malloc_def malloc_grow_def sbrk_def free_def
  coalesce_prev_def coalesce_next_def split_mem_def get_addr_def sizeof_mem_block_def
  setters malloc_scan.simps Let_heap Let_pair

subsection \<open>The runs, state by state\<close>

lemma heapA_eq: "heapA =
  \<lparr>blocks = (\<lambda>_. no_block)
     (4096 := \<lparr>bsize = 16, bfree = False, bptr = 4136, bnext = NULL, bprev = NULL\<rparr>),
   bytes = (\<lambda>_. 0), head = 4096, requested_size = 56, allocated_size = 56,
   brk = 4152, brk_min = 4096, brk_max = 65536\<rparr>"
  by (simp add: heapA_def heap0_def heap_init_def run_defs)



lemma heapAH_eq: "heapAH =
  \<lparr>blocks = (\<lambda>_. no_block)
     (4096 := \<lparr>bsize = 16, bfree = False, bptr = 4136, bnext = NULL, bprev = 4152\<rparr>,
      4152 := \<lparr>bsize = - 40, bfree = False, bptr = 4192, bnext = 4096, bprev = NULL\<rparr>),
   bytes = (\<lambda>_. 0), head = 4152, requested_size = 56, allocated_size = 56,
   brk = 4152, brk_min = 4096, brk_max = 65536\<rparr>"
  by (simp add: heapAH_def heapA_eq run_defs fun_eq_iff)

lemma heapAHC_eq: "heapAHC =
  \<lparr>blocks = (\<lambda>_. no_block)
     (4096 := \<lparr>bsize = 16, bfree = False, bptr = 4136, bnext = NULL, bprev = 4152\<rparr>,
      4152 := \<lparr>bsize = 16, bfree = False, bptr = 4192, bnext = 4152, bprev = 4152\<rparr>),
   bytes = (\<lambda>_. 0), head = 4152, requested_size = 112, allocated_size = 112,
   brk = 4208, brk_min = 4096, brk_max = 65536\<rparr>"
  by (simp add: heapAHC_def heapAH_eq run_defs fun_eq_iff)

lemma heapAHC_freed_eq: "heapAHC_freed =
  \<lparr>blocks = (\<lambda>_. no_block)
     (4096 := \<lparr>bsize = 16, bfree = False, bptr = 4136, bnext = NULL, bprev = 4152\<rparr>,
      4152 := \<lparr>bsize = 184, bfree = True, bptr = 4192, bnext = 4152, bprev = 4152\<rparr>),
   bytes = (\<lambda>_. 0), head = 4152, requested_size = 16, allocated_size = 112,
   brk = 4208, brk_min = 4096, brk_max = 65536\<rparr>"
  by (simp add: heapAHC_freed_def heapAHC_eq run_defs fun_eq_iff)

lemma heapAH_freed_eq: "heapAH_freed =
  \<lparr>blocks = (\<lambda>_. no_block)
     (4096 := \<lparr>bsize = 16, bfree = False, bptr = 4136, bnext = NULL, bprev = 4152\<rparr>,
      4152 := \<lparr>bsize = - 40, bfree = True, bptr = 4192, bnext = 4096, bprev = NULL\<rparr>),
   bytes = (\<lambda>_. 0), head = 4152, requested_size = 96, allocated_size = 56,
   brk = 4152, brk_min = 4096, brk_max = 65536\<rparr>"
  by (simp add: heapAH_freed_def heapAH_eq run_defs fun_eq_iff)

lemma heapANB_eq: "heapANB =
  \<lparr>blocks = (\<lambda>_. no_block)
     (4096 := \<lparr>bsize = 16, bfree = False, bptr = 4136, bnext = NULL, bprev = 4152\<rparr>,
      4152 := \<lparr>bsize = 16, bfree = False, bptr = 4192, bnext = 4096, bprev = 4208\<rparr>,
      4208 := \<lparr>bsize = - 96, bfree = True, bptr = 4248, bnext = 4152, bprev = NULL\<rparr>),
   bytes = (\<lambda>_. 0), head = 4208, requested_size = 152, allocated_size = 56,
   brk = 4152, brk_min = 4096, brk_max = 65536\<rparr>"
  by (simp add: heapANB_def heapAH_freed_eq run_defs fun_eq_iff)

lemma heapANB_grown_eq: "heapANB_grown =
  \<lparr>blocks = (\<lambda>_. no_block)
     (4096 := \<lparr>bsize = 16, bfree = False, bptr = 4136, bnext = NULL, bprev = 4152\<rparr>,
      4152 := \<lparr>bsize = - 40, bfree = False, bptr = 4192, bnext = 4208, bprev = NULL\<rparr>,
      4208 := \<lparr>bsize = - 96, bfree = True, bptr = 4248, bnext = 4152, bprev = 4152\<rparr>),
   bytes = (\<lambda>_. 0), head = 4152, requested_size = 152, allocated_size = 56,
   brk = 4152, brk_min = 4096, brk_max = 65536\<rparr>"
  by (simp add: heapANB_grown_def heapANB_eq run_defs fun_eq_iff)

lemma heapANB_freed_eq: "heapANB_freed =
  \<lparr>blocks = (\<lambda>_. no_block)
     (4096 := \<lparr>bsize = 16, bfree = False, bptr = 4136, bnext = NULL, bprev = 4152\<rparr>,
      4152 := \<lparr>bsize = - 40, bfree = True, bptr = 4192, bnext = 4208, bprev = NULL\<rparr>,
      4208 := \<lparr>bsize = - 96, bfree = True, bptr = 4248, bnext = 4152, bprev = NULL\<rparr>),
   bytes = (\<lambda>_. 0), head = 4208, requested_size = 152, allocated_size = 56,
   brk = 4152, brk_min = 4096, brk_max = 65536\<rparr>"
  by (simp add: heapANB_freed_def heapANB_grown_eq run_defs fun_eq_iff)

lemma heap_smallA_eq: "heap_smallA =
  \<lparr>blocks = (\<lambda>_. no_block)
     (4096 := \<lparr>bsize = 16, bfree = False, bptr = 4136, bnext = NULL, bprev = NULL\<rparr>),
   bytes = (\<lambda>_. 0), head = 4096, requested_size = 56, allocated_size = 56,
   brk = 4152, brk_min = 4096, brk_max = 4152\<rparr>"
  by (simp add: heap_smallA_def heap_small_def heap_init_def run_defs)

lemma heapL_freed_eq: "heapL_freed =
  \<lparr>blocks = (\<lambda>_. no_block)
     (4096 := \<lparr>bsize = 2048, bfree = True, bptr = 4136, bnext = NULL, bprev = NULL\<rparr>),
   bytes = (\<lambda>_. 0), head = 4096, requested_size = 40, allocated_size = 2088,
   brk = 6184, brk_min = 4096, brk_max = 65536\<rparr>"
  by (simp add: heapL_freed_def heap0_def heap_init_def run_defs)

lemma heapA_lowered_eq: "heapA_lowered =
  \<lparr>blocks = (\<lambda>_. no_block)
     (4096 := \<lparr>bsize = 16, bfree = False, bptr = 4136, bnext = NULL, bprev = 4152\<rparr>,
      4152 := \<lparr>bsize = - 41, bfree = False, bptr = 4192, bnext = 4096, bprev = NULL\<rparr>),
   bytes = (\<lambda>_. 0), head = 4152, requested_size = 55, allocated_size = 55,
   brk = 4151, brk_min = 4096, brk_max = 65536\<rparr>"
  by (simp add: heapA_lowered_def heapA_eq run_defs fun_eq_iff)

text \<open>The calls of the runs, with their results.\<close>

lemma run_heapA: "malloc heap0 16 = Some (4136, heapA)"
  by (simp add: heapA_eq heap0_def heap_init_def run_defs)

lemma run_heapAH: "malloc heapA (- 40) = Some (4192, heapAH)"
  by (simp add: heapAH_eq heapA_eq run_defs fun_eq_iff)

lemma run_heapAH_freed: "free heapAH 4192 = heapAH_freed"
  by (simp add: heapAH_freed_def)

text \<open>
  A request whose sum with the header size is \<open>2^63\<close> or more reaches \<open>sbrk\<close> as a
  negative delta: \<open>malloc(SIZE_MAX - 40)\<close> lowers the break by one byte and returns the
  payload of a block at the old break.
\<close>

lemma run_heapA_lowered:
  "malloc heapA (- 41) = Some (4192, heapA_lowered) \<and> brk heapA_lowered = 4151"
  by (simp add: heapA_lowered_eq heapA_eq run_defs fun_eq_iff)

lemma run_heapAHC: "malloc heapAH 16 = Some (4192, heapAHC)"
  by (simp add: heapAHC_eq heapAH_eq run_defs fun_eq_iff)

lemma run_heapANB: "malloc heapAH_freed 16 = Some (4192, heapANB)"
  by (simp add: heapANB_eq heapAH_freed_eq run_defs fun_eq_iff)

lemma run_heapANB_grown: "malloc heapANB (- 40) = Some (4192, heapANB_grown)"
  by (simp add: heapANB_grown_eq heapANB_eq run_defs fun_eq_iff)

subsection \<open>Release\<close>

text \<open>Neither merge step writes a \<open>free\<close> flag or a \<open>ptr\<close> field.\<close>

lemma bfree_coalesce_prev [simp]:
  "bfree (blocks (coalesce_prev s b) a) = bfree (blocks s a)"
  by (simp add: coalesce_prev_def setters Let_def)

lemma bfree_coalesce_next [simp]:
  "bfree (blocks (coalesce_next s b) a) = bfree (blocks s a)"
  by (simp add: coalesce_next_def setters Let_def)

lemma bptr_coalesce_prev [simp]:
  "bptr (blocks (coalesce_prev s b) a) = bptr (blocks s a)"
  by (simp add: coalesce_prev_def setters Let_def)

lemma bptr_coalesce_next [simp]:
  "bptr (blocks (coalesce_next s b) a) = bptr (blocks s a)"
  by (simp add: coalesce_next_def setters Let_def)

lemma bfree_after_free:
  "ptr \<noteq> NULL \<Longrightarrow> bfree (blocks (free s ptr) (get_addr ptr))"
  by (simp add: free_def Let_def setters)




subsection \<open>Allocation of zero bytes\<close>

text \<open>
  C8, as stated: the result of \<open>Allocate(0)\<close> is distinct from the failure signal. It is
  not: on a heap that cannot grow, \<open>malloc(0)\<close> and the failing \<open>malloc(16)\<close> return the
  same null pointer and leave the same state.
\<close>

theorem malloc_zero_is_failure_value:
  "malloc heap_small 0 = Some (NULL, heap_small)
   \<and> malloc heap_smallA 16 = Some (NULL, heap_smallA)
   \<and> malloc heap_smallA 0 = Some (NULL, heap_smallA)"
  by (simp add: heap_smallA_eq run_defs)

text \<open>
  C8, amended. \<open>Allocate(0)\<close> performs no heap mutation (no scan, no growth, counters
  and registry unchanged) and returns the null pointer, the same value that signals
  failure; releasing that result is a no-op as well.
\<close>

theorem malloc_zero_returns_null:
  "malloc s 0 = Some (NULL, s) \<and> free s NULL = s"
  by (simp add: malloc_def free_def)

subsection \<open>Resize\<close>

lemma realloc_zero_aborts:
  "ptr \<noteq> NULL \<Longrightarrow> realloc s ptr 0 = Some (Inl AssertionFailed)"
  using bfree_after_free [of ptr s]
  by (simp add: realloc_def Let_def)

text \<open>
  C1. For every in-use pointer \<open>p\<close> returned by the allocator, \<open>Resize(p, 0)\<close> releases
  \<open>p\<close> as \<open>Release(p)\<close> would and returns null. The code does not: line 216 calls
  \<open>free(ptr)\<close> without returning, and line 220 then asserts that the block it has just
  released is in use. Here \<open>p = 4136\<close> is the result of the first \<open>malloc(16)\<close>.
\<close>

theorem realloc_zero_on_live_pointer:
  "malloc heap0 16 = Some (4136, heapA)
   \<and> \<not> bfree (blocks heapA (get_addr 4136))
   \<and> realloc heapA 4136 0 = Some (Inl AssertionFailed)"
proof -
  have "malloc heap0 16 = Some (4136, heapA)"
    by (simp add: heapA_eq heap0_def heap_init_def run_defs)
  moreover have "\<not> bfree (blocks heapA (get_addr 4136))"
    by (simp add: heapA_eq get_addr_def sizeof_mem_block_def)
  moreover have "realloc heapA 4136 0 = Some (Inl AssertionFailed)"
    by (rule realloc_zero_aborts) simp
  ultimately show ?thesis by simp
qed

text \<open>
  C2. When the fresh allocation of Resize's allocate-copy-release path fails, Resize
  returns null and leaves the original block untouched. The code does not: it passes
  the null result of line 231 to \<open>memcpy\<close> on line 233 (and line 234 would release the
  original block). Here the heap cannot grow beyond its first block, \<open>p = 4136\<close> is that
  block's payload of 16 bytes, and the request is \<open>realloc(p, 32)\<close>.
\<close>

theorem realloc_failed_allocation:
  "malloc heap_small 16 = Some (4136, heap_smallA)
   \<and> malloc heap_smallA 32 = Some (NULL, heap_smallA)
   \<and> realloc heap_smallA 4136 32 = Some (Inl NullDereference)"
proof -
  have "malloc heap_small 16 = Some (4136, heap_smallA)"
    by (simp add: heap_smallA_eq heap_small_def heap_init_def run_defs)
  moreover have m: "malloc heap_smallA 32 = Some (NULL, heap_smallA)"
    by (simp add: heap_smallA_eq run_defs)
  moreover have "realloc heap_smallA 4136 32 = Some (Inl NullDereference)"
    by (simp add: realloc_def realloc_move_def m Let_def)
       (simp add: heap_smallA_eq get_addr_def sizeof_mem_block_def)
  ultimately show ?thesis by simp
qed

subsection \<open>Merging with the prev neighbour\<close>




text \<open>
  The merge with the next neighbour is the mirror image: there the neighbour survives
  and takes over the current block's prev link.
\<close>

lemma coalesce_next_absorbs_block:
  assumes "bnext (blocks s b) \<noteq> NULL" and "bfree (blocks s (bnext (blocks s b)))"
  shows "let n = bnext (blocks s b); s' = coalesce_next s b in
     bsize (blocks s' n) = bsize (blocks s n) + (bsize (blocks s b) + sizeof_mem_block) \<and>
     bprev (blocks s' n) = bprev (blocks s b) \<and>
     (if bprev (blocks s b) = NULL then head s' = n
      else head s' = head s \<and> bnext (blocks s' (bprev (blocks s b))) = n) \<and>
     requested_size s' = requested_size s - sizeof_mem_block \<and>
     allocated_size s' = allocated_size s \<and>
     (\<forall>a. a \<noteq> n \<and> a \<noteq> bprev (blocks s b) \<longrightarrow> blocks s' a = blocks s a) \<and>
     bytes s' = bytes s"
  using assms by (auto simp add: coalesce_next_def setters Let_def)

subsection \<open>Zeroing allocation\<close>

text \<open>
  \<open>calloc\<close> hands the wrapped product \<open>num * sz\<close> to \<open>malloc\<close>. It returns null when
  \<open>malloc\<close> does, with \<open>malloc\<close>'s state; on a non-null pointer whose range is mapped it
  returns that pointer with the \<open>num * sz\<close> bytes there set to zero and nothing else of
  \<open>malloc\<close>'s state changed; and it faults when the range is not all mapped.
\<close>

lemma calloc_null:
  "malloc s (num * sz) = Some (NULL, s1) \<Longrightarrow> calloc s num sz = Some (Inr (NULL, s1))"
  by (simp add: calloc_def)

lemma calloc_faults:
  "malloc s (num * sz) = Some (p, s1) \<Longrightarrow> p \<noteq> NULL \<Longrightarrow>
     \<not> accessible s1 p (num * sz) \<Longrightarrow> calloc s num sz = Some (Inl SegmentationFault)"
  by (simp add: calloc_def)

lemma calloc_zeroes_payload:
  assumes "malloc s (num * sz) = Some (p, s1)" and "p \<noteq> NULL"
    and "accessible s1 p (num * sz)"
  shows "\<exists>s'. calloc s num sz = Some (Inr (p, s')) \<and> s' = s1\<lparr>bytes := bytes s'\<rparr> \<and>
           (\<forall>i < unat (num * sz). bytes s' (p + of_nat i) = 0)"
proof -
  have z: "(of_nat i :: 64 word) < num * sz" if i: "i < unat (num * sz)" for i
  proof -
    have "unat (num * sz) < 2 ^ 64" using unsigned_less [of "num * sz"] by simp
    with i have "i < 2 ^ 64" by simp
    then have "unat (of_nat i :: 64 word) = i" by (simp add: unat_of_nat)
    with i show ?thesis by (simp add: word_less_nat_alt)
  qed
  show ?thesis using assms z
    by (auto simp: calloc_def memset_def Let_def)
qed

text \<open>
  On the fresh heap with a dirty payload area, \<open>calloc(3, 4)\<close> moves the break to 4148,
  returns 4136, and the twelve bytes from there on read zero.
\<close>

lemma calloc_zeroes_payload_example:
  "\<exists>s'. calloc heap_dirty 3 4 = Some (Inr (4136, s'))
       \<and> bytes s' 4136 = 0 \<and> bytes s' 4147 = 0"
proof -
  have m: "malloc heap_dirty (3 * 4) = Some (4136, after_malloc heap_dirty 12)"
    by (simp add: heap_dirty_def heap0_def heap_init_def run_defs)
  have w: "accessible (after_malloc heap_dirty 12) 4136 (3 * 4)"
    by (simp add: accessible_def mapped_end_def page_size_def
          heap_dirty_def heap0_def heap_init_def run_defs)
  from calloc_zeroes_payload [OF m _ w]
  obtain s' where c: "calloc heap_dirty 3 4 = Some (Inr (4136, s'))"
    and zero: "\<forall>i < unat (3 * 4 :: size_t). bytes s' (4136 + of_nat i) = 0"
    by auto
  have "(0::nat) < unat (3 * 4 :: size_t)" and "(11::nat) < unat (3 * 4 :: size_t)"
    by simp_all
  with zero have "bytes s' (4136 + of_nat 0) = 0" and "bytes s' (4136 + of_nat 11) = 0"
    by blast+
  then have "bytes s' 4136 = 0" "bytes s' 4147 = 0" by simp_all
  with c show ?thesis by blast
qed

text \<open>
  C9. For every \<open>count\<close> and \<open>elemSize\<close>, AllocateZeroed returns null exactly when the
  underlying Allocate fails, and on success every byte of the returned payload reads
  as zero. The code does not: in \<open>a = malloc(16); calloc(1, SIZE_MAX - 39)\<close> the
  underlying \<open>malloc(SIZE_MAX - 39)\<close> does not fail but returns 4192, the payload of a
  block of \<open>2^64 - 40\<close> bytes that it has registered at the unmoved break (the request
  of line 126 wrapped to \<open>sbrk(0)\<close>). The break is still at 4152 and the heap is mapped
  up to 8192, so the \<open>memset\<close> of line 78 over \<open>2^64 - 40\<close> bytes from 4192 on runs out
  of the mapped memory: \<open>calloc\<close> returns neither null nor a zeroed payload.
\<close>

theorem calloc_of_wrapped_allocation_faults:
  "malloc heap0 16 = Some (4136, heapA)
   \<and> malloc heapA (1 * - 40) = Some (4192, heapAH)
   \<and> bsize (blocks heapAH 4152) = - 40
   \<and> brk heapAH = 4152 \<and> mapped_end heapAH = 8192
   \<and> unat (4192 :: addr) + unat (1 * - 40 :: size_t) = 2 ^ 64 + 4152
   \<and> calloc heapA 1 (- 40) = Some (Inl SegmentationFault)"
proof -
  have m: "malloc heapA (1 * - 40) = Some (4192, heapAH)"
    using run_heapAH by simp
  have "\<not> accessible heapAH 4192 (1 * - 40)"
    by (simp add: accessible_def mapped_end_def page_size_def heapAH_eq)
  with m have "calloc heapA 1 (- 40) = Some (Inl SegmentationFault)"
    by (intro calloc_faults) simp_all
  moreover have "bsize (blocks heapAH 4152) = - 40
      \<and> brk heapAH = 4152 \<and> mapped_end heapAH = 8192"
    by (simp add: mapped_end_def page_size_def heapAH_eq)
  moreover have "unat (4192 :: addr) + unat (1 * - 40 :: size_t) = 2 ^ 64 + 4152"
    by simp
  ultimately show ?thesis using run_heapA m by blast
qed

subsection \<open>First fit and the split\<close>

text \<open>
  What the loop has done when it returns with \<open>y = (chosen, state)\<close>: nothing when
  \<open>chosen\<close> is null, and otherwise \<open>chosen\<close> was free and large enough and the only
  change is the split of lines 112-115, when its test holds.
\<close>

lemma malloc_scan_post:
  assumes "malloc_scan s p sz = Some y"
  shows "fst y = NULL \<or>
      bfree (blocks s (fst y)) \<and> sz \<le> bsize (blocks s (fst y)) \<and>
      snd y =
        (if 2 * sz \<le> bsize (blocks s (fst y)) \<and> 1024 \<le> bsize (blocks s (fst y)) - sz
         then (split_mem s (fst y) sz)\<lparr>requested_size :=
                 requested_size (split_mem s (fst y) sz) + sizeof_mem_block\<rparr>
         else s)"
    (is "?post s sz y")
proof (rule malloc_scan.raw_induct [where P = "\<lambda>s p sz y. ?post s sz y", OF _ assms])
  fix scan s p sz y
  assume IH: "\<And>s p sz y. scan s p sz = Some y \<Longrightarrow> ?post s sz y"
    and body: "(if p = NULL then Some (NULL, s)
      else if bfree (blocks s p) \<and> sz \<le> bsize (blocks s p) then
        (if 2 * sz \<le> bsize (blocks s p) \<and> 1024 \<le> bsize (blocks s p) - sz
         then let s1 = split_mem s p sz
              in Some (p, s1\<lparr>requested_size := requested_size s1 + sizeof_mem_block\<rparr>)
         else Some (p, s))
      else scan s (bnext (blocks s p)) sz) = Some y"
  show "?post s sz y"
  proof (cases "p = NULL")
    case True
    with body show ?thesis by auto
  next
    case False
    show ?thesis
    proof (cases "bfree (blocks s p) \<and> sz \<le> bsize (blocks s p)")
      case True
      with body False show ?thesis
        by (auto simp: Let_def split: if_splits)
    next
      case no: False
      with body False have "scan s (bnext (blocks s p)) sz = Some y" by auto
      then show ?thesis by (rule IH)
    qed
  qed
qed

text \<open>First fit: the loop passes over a block that does not fit and stops at one that does.\<close>

lemma malloc_scan_skips:
  "p \<noteq> NULL \<Longrightarrow> \<not> (bfree (blocks s p) \<and> sz \<le> bsize (blocks s p)) \<Longrightarrow>
     malloc_scan s p sz = malloc_scan s (bnext (blocks s p)) sz"
  by (subst malloc_scan.simps) auto

lemma malloc_scan_takes:
  "p \<noteq> NULL \<Longrightarrow> bfree (blocks s p) \<Longrightarrow> sz \<le> bsize (blocks s p) \<Longrightarrow>
     map_option fst (malloc_scan s p sz) = Some p"
  by (subst malloc_scan.simps) (simp add: Let_def)

text \<open>The test of line 112 read on natural numbers: the doubling wraps at \<open>2^64\<close>.\<close>

lemma split_condition_nat:
  fixes sz cap :: size_t
  assumes "sz \<le> cap"
  shows "(2 * sz \<le> cap \<and> 1024 \<le> cap - sz)
         = ((2 * unat sz) mod 2 ^ 64 \<le> unat cap \<and> unat sz + 1024 \<le> unat cap)"
proof -
  have a: "(2 * sz \<le> cap) = ((2 * unat sz) mod 2 ^ 64 \<le> unat cap)"
    by (simp add: word_le_nat_alt unat_word_ariths)
  have le: "unat sz \<le> unat cap" using assms by (simp add: word_le_nat_alt)
  have "unat (cap - sz) = unat cap - unat sz" using assms by (rule unat_sub)
  then have b: "(1024 \<le> cap - sz) = (unat sz + 1024 \<le> unat cap)"
    using le by (simp add: word_le_nat_alt) arith
  from a b show ?thesis by simp
qed

lemma remainder_size_nat:
  fixes sz cap :: size_t
  assumes "sz \<le> cap" and "1024 \<le> cap - sz"
  shows "unat (cap - sz - sizeof_mem_block) = unat cap - unat sz - 40"
proof -
  have 1: "unat (cap - sz) = unat cap - unat sz" using assms(1) by (rule unat_sub)
  have "(40 :: size_t) \<le> 1024" by simp
  from this assms(2) have "(40 :: size_t) \<le> cap - sz" by (rule order_trans)
  then have "unat (cap - sz - 40) = unat (cap - sz) - unat (40 :: size_t)" by (rule unat_sub)
  with 1 show ?thesis by (simp add: sizeof_mem_block_def)
qed

text \<open>
  The split in general. When Allocate's scan runs and matches a free block \<open>c\<close> (free,
  capacity at least the request), the block is split if and only if the test of line
  112 holds, which on natural numbers reads: the capacity is at least \<open>2 * size\<close> taken
  modulo \<open>2^64\<close>, and the leftover \<open>capacity - size\<close> is at least 1024. For a request
  below \<open>2^63\<close> the doubling does not wrap and this is "at least twice the request".
  The split leaves the caller's block with capacity exactly \<open>size\<close>, marked in use, and
  creates a free block of \<open>oldSize - size - 40\<close> bytes at \<open>payload + size\<close>, linked in
  front of the caller's block in the place the original block had (prev link of the
  original, head of the registry when there was none); one header is added to
  \<open>requested_size\<close> besides the request. Otherwise the block is handed out whole. The
  two side conditions say that the new header does not land on the matched block's
  own header or on its prev neighbour's, as is the case when payloads follow their
  headers.
\<close>

lemma malloc_first_fit_split:
  assumes nz: "sz \<noteq> 0" and slack: "sz \<le> allocated_size s - requested_size s"
    and scan: "malloc_scan s (head s) sz = Some (c, s1)" and c: "c \<noteq> NULL"
    and d1: "bptr (blocks s c) + sz \<noteq> c"
    and d2: "bprev (blocks s c) \<noteq> bptr (blocks s c) + sz"
  shows "bfree (blocks s c) \<and> sz \<le> bsize (blocks s c) \<and>
     (\<exists>s'. malloc s sz = Some (bptr (blocks s c), s') \<and>
        (let cap = bsize (blocks s c); nb = bptr (blocks s c) + sz in
         if (2 * unat sz) mod 2 ^ 64 \<le> unat cap \<and> unat sz + 1024 \<le> unat cap then
           bsize (blocks s' c) = sz \<and> \<not> bfree (blocks s' c) \<and> bprev (blocks s' c) = nb \<and>
           blocks s' nb = \<lparr>bsize = cap - sz - sizeof_mem_block, bfree = True,
                            bptr = nb + sizeof_mem_block, bnext = c,
                            bprev = bprev (blocks s c)\<rparr> \<and>
           unat (cap - sz - sizeof_mem_block) = unat cap - unat sz - 40 \<and>
           (if bprev (blocks s c) = NULL then head s' = nb
            else head s' = head s \<and> bnext (blocks s' (bprev (blocks s c))) = nb) \<and>
           requested_size s' = requested_size s + sizeof_mem_block + sz
         else
           s' = s\<lparr>blocks := (blocks s)(c := (blocks s c)\<lparr>bfree := False\<rparr>),
                   requested_size := requested_size s + cap\<rparr>))"
proof -
  from malloc_scan_post [OF scan] c
  have fit: "bfree (blocks s c)" "sz \<le> bsize (blocks s c)"
    and s1: "s1 = (if 2 * sz \<le> bsize (blocks s c) \<and> 1024 \<le> bsize (blocks s c) - sz
               then (split_mem s c sz)\<lparr>requested_size :=
                       requested_size (split_mem s c sz) + sizeof_mem_block\<rparr>
               else s)"
    by auto
  note cond = split_condition_nat [OF fit(2)]
  show ?thesis
  proof (cases "2 * sz \<le> bsize (blocks s c) \<and> 1024 \<le> bsize (blocks s c) - sz")
    case True
    then have rem: "unat (bsize (blocks s c) - sz - sizeof_mem_block)
        = unat (bsize (blocks s c)) - unat sz - 40"
      using remainder_size_nat [OF fit(2)] by simp
    from True cond have condn: "(2 * unat sz) mod 2 ^ 64 \<le> unat (bsize (blocks s c))
        \<and> unat sz + 1024 \<le> unat (bsize (blocks s c))" by simp
    from True s1 have s1': "s1 = (split_mem s c sz)\<lparr>requested_size :=
                       requested_size (split_mem s c sz) + sizeof_mem_block\<rparr>" by simp
    show ?thesis
      using fit nz slack scan c d1 d2 rem condn
      by (auto simp: malloc_def s1' split_mem_def setters Let_def)
  next
    case False
    with cond have condn: "\<not> ((2 * unat sz) mod 2 ^ 64 \<le> unat (bsize (blocks s c))
        \<and> unat sz + 1024 \<le> unat (bsize (blocks s c)))" by simp
    from False s1 have s1': "s1 = s" by (simp only: if_False)
    have res: "malloc s sz = Some (bptr (blocks s c),
        s\<lparr>blocks := (blocks s)(c := (blocks s c)\<lparr>bfree := False\<rparr>),
          requested_size := requested_size s + bsize (blocks s c)\<rparr>)"
      using nz slack scan c by (simp add: malloc_def s1' setters Let_def)
    from condn have "(if (2 * unat sz) mod 2 ^ 64 \<le> unat (bsize (blocks s c))
             \<and> unat sz + 1024 \<le> unat (bsize (blocks s c)) then P else Q) = Q" for P Q :: bool
      by (rule if_not_P)
    then show ?thesis using fit res unfolding Let_def by simp
  qed
qed

text \<open>
  \<open>p = malloc(2048); free(p); malloc(16)\<close>: the free block of 2048 bytes is split into
  the caller's 16 bytes at 4136 and a free block of 1992 bytes at 4152, the new head.
\<close>

lemma malloc_first_fit_split_example:
  "bfree (blocks heapL_freed 4096)
   \<and> bsize (blocks heapL_freed 4096) = 2048
   \<and> (\<exists>s'. malloc heapL_freed 16 = Some (4136, s')
         \<and> bsize (blocks s' 4096) = 16 \<and> \<not> bfree (blocks s' 4096)
         \<and> bprev (blocks s' 4096) = 4152
         \<and> blocks s' 4152 = \<lparr>bsize = 1992, bfree = True, bptr = 4192,
                               bnext = 4096, bprev = NULL\<rparr>
         \<and> head s' = 4152
         \<and> requested_size s' = 96)"
proof -
  have nz: "(16 :: size_t) \<noteq> 0" by simp
  have slack: "16 \<le> allocated_size heapL_freed - requested_size heapL_freed"
    by (simp add: heapL_freed_eq)
  have scan: "malloc_scan heapL_freed (head heapL_freed) 16 =
      Some (4096, (split_mem heapL_freed 4096 16)\<lparr>requested_size :=
         requested_size (split_mem heapL_freed 4096 16) + sizeof_mem_block\<rparr>)"
    by (subst malloc_scan.simps) (simp add: heapL_freed_eq Let_def)
  have c: "(4096 :: addr) \<noteq> NULL" by simp
  have d1: "bptr (blocks heapL_freed 4096) + 16 \<noteq> 4096"
    by (simp add: heapL_freed_eq)
  have d2: "bprev (blocks heapL_freed 4096) \<noteq> bptr (blocks heapL_freed 4096) + 16"
    by (simp add: heapL_freed_eq)
  have vals: "bfree (blocks heapL_freed 4096)" "bsize (blocks heapL_freed 4096) = 2048"
    "bptr (blocks heapL_freed 4096) = 4136" "bprev (blocks heapL_freed 4096) = NULL"
    "requested_size heapL_freed = 40"
    by (simp_all add: heapL_freed_eq)
  from malloc_first_fit_split [OF nz slack scan c d1 d2] show ?thesis
    by (simp add: vals Let_def sizeof_mem_block_def)
qed

text \<open>
  C4. The matched free block is split if and only if its capacity is at least twice
  the requested size and the leftover is at least 1024 bytes. The code does not keep
  to this for a request of \<open>2^63\<close> bytes or more: line 112 computes \<open>2*size\<close> in \<open>size_t\<close>
  without an overflow check, and \<open>2 * 2^63\<close> is 0 there, so that the first half of the
  test holds for every block. After \<open>a = malloc(16); b = malloc(SIZE_MAX - 39);
  free(b)\<close> the head block B at 4152 is free with capacity \<open>2^64 - 40\<close> (the block that
  the wrapped request of line 126 has registered). The slack lets \<open>malloc(2^63)\<close> scan,
  the scan matches B, whose capacity is less than twice \<open>2^63\<close>, and lines 113-114
  split it: the result of the loop is B with the state that \<open>split_mem(B, 2^63)\<close>
  leaves. The new header of that split lies at \<open>4192 + 2^63\<close>, far outside the mapped
  heap, which ends at 8192.
\<close>

theorem malloc_splits_when_doubling_wraps:
  "malloc heap0 16 = Some (4136, heapA)
   \<and> malloc heapA (- 40) = Some (4192, heapAH)
   \<and> free heapAH 4192 = heapAH_freed
   \<and> 2 ^ 63 \<le> allocated_size heapAH_freed - requested_size heapAH_freed
   \<and> head heapAH_freed = 4152
   \<and> bfree (blocks heapAH_freed 4152)
   \<and> 2 ^ 63 \<le> bsize (blocks heapAH_freed 4152)
   \<and> unat (bsize (blocks heapAH_freed 4152)) = 2 ^ 64 - 40
   \<and> unat (bsize (blocks heapAH_freed 4152)) < 2 * unat (2 ^ 63 :: size_t)
   \<and> (2 * 2 ^ 63 :: size_t) = 0
   \<and> 2 * 2 ^ 63 \<le> bsize (blocks heapAH_freed 4152)
   \<and> 1024 \<le> bsize (blocks heapAH_freed 4152) - 2 ^ 63
   \<and> bptr (blocks heapAH_freed 4152) + 2 ^ 63 = 4192 + 2 ^ 63
   \<and> mapped_end heapAH_freed = 8192
   \<and> \<not> accessible heapAH_freed (4192 + 2 ^ 63) sizeof_mem_block
   \<and> malloc_scan heapAH_freed (head heapAH_freed) (2 ^ 63)
       = Some (4152, (split_mem heapAH_freed 4152 (2 ^ 63))\<lparr>requested_size :=
            requested_size (split_mem heapAH_freed 4152 (2 ^ 63)) + sizeof_mem_block\<rparr>)"
proof -
  have "2 ^ 63 \<le> allocated_size heapAH_freed - requested_size heapAH_freed
      \<and> head heapAH_freed = 4152
      \<and> bfree (blocks heapAH_freed 4152)
      \<and> 2 ^ 63 \<le> bsize (blocks heapAH_freed 4152)
      \<and> unat (bsize (blocks heapAH_freed 4152)) = 2 ^ 64 - 40
      \<and> unat (bsize (blocks heapAH_freed 4152)) < 2 * unat (2 ^ 63 :: size_t)
      \<and> (2 * 2 ^ 63 :: size_t) = 0
      \<and> 2 * 2 ^ 63 \<le> bsize (blocks heapAH_freed 4152)
      \<and> 1024 \<le> bsize (blocks heapAH_freed 4152) - 2 ^ 63
      \<and> bptr (blocks heapAH_freed 4152) + 2 ^ 63 = 4192 + 2 ^ 63"
    by (simp add: heapAH_freed_eq)
  moreover have "mapped_end heapAH_freed = 8192
      \<and> \<not> accessible heapAH_freed (4192 + 2 ^ 63) sizeof_mem_block"
    by (simp add: accessible_def mapped_end_def page_size_def sizeof_mem_block_def
          heapAH_freed_eq)
  moreover have "malloc_scan heapAH_freed (head heapAH_freed) (2 ^ 63)
       = Some (4152, (split_mem heapAH_freed 4152 (2 ^ 63))\<lparr>requested_size :=
            requested_size (split_mem heapAH_freed 4152 (2 ^ 63)) + sizeof_mem_block\<rparr>)"
    by (subst malloc_scan.simps) (simp add: heapAH_freed_eq Let_def)
  ultimately show ?thesis
    using run_heapA run_heapAH run_heapAH_freed by blast
qed

subsection \<open>The wrapped growth request\<close>

text \<open>
  Growth at an address other than the head's links the new block in front of the old
  head and touches no other header.
\<close>

lemma malloc_grow_fresh:
  assumes "brk s \<noteq> head s" and "brk s \<noteq> - 1"
    and "uint (brk_min s) \<le> uint (brk s) + sint (sizeof_mem_block + sz)"
    and "uint (brk s) + sint (sizeof_mem_block + sz) \<le> uint (brk_max s)"
  shows "fst (malloc_grow s sz) = brk s + sizeof_mem_block
         \<and> head (snd (malloc_grow s sz)) = brk s
         \<and> blocks (snd (malloc_grow s sz)) (brk s)
             = \<lparr>bsize = sz, bfree = False, bptr = brk s + sizeof_mem_block, bnext = head s,
                bprev = (if head s = NULL then NULL else bprev (blocks s (head s)))\<rparr>
         \<and> (head s = NULL \<or> bprev (blocks (snd (malloc_grow s sz)) (head s)) = brk s)
         \<and> (\<forall>a. a \<noteq> brk s \<and> a \<noteq> head s \<longrightarrow>
               blocks (snd (malloc_grow s sz)) a = blocks s a)"
  using assms
  by (auto simp add: malloc_grow_def sbrk_def setters Let_def)

text \<open>
  Line 126 computes \<open>sizeof(mem_block) + size\<close> in \<open>size_t\<close>. For \<open>size = SIZE_MAX - 39\<close>
  the sum is 0, \<open>sbrk(0)\<close> succeeds and returns the break without moving it, and the
  new block of \<open>2^64 - 40\<close> bytes becomes the head there.
\<close>

lemma malloc_grow_wrapped:
  assumes "uint (brk_min s) \<le> uint (brk s)" and "uint (brk s) \<le> uint (brk_max s)"
    and "brk s \<noteq> - 1"
  shows "brk (snd (malloc_grow s (- 40))) = brk s
         \<and> head (snd (malloc_grow s (- 40))) = brk s
         \<and> fst (malloc_grow s (- 40)) = brk s + 40
         \<and> bsize (blocks (snd (malloc_grow s (- 40))) (brk s)) = - 40"
  using assms
  by (simp add: malloc_grow_def sbrk_def sizeof_mem_block_def setters Let_def)


text \<open>
  The next growth gets the same address from \<open>sbrk\<close>: \<open>chosen\<close> is the head, and lines
  131-134 link the block to itself.
\<close>

lemma malloc_grow_on_head:
  assumes "brk s = head s" and "head s \<noteq> NULL" and "head s \<noteq> - 1"
    and "uint (brk_min s) \<le> uint (brk s) + sint (sizeof_mem_block + sz)"
    and "uint (brk s) + sint (sizeof_mem_block + sz) \<le> uint (brk_max s)"
  shows "head (snd (malloc_grow s sz)) = head s
         \<and> bnext (blocks (snd (malloc_grow s sz)) (head s)) = head s
         \<and> bprev (blocks (snd (malloc_grow s sz)) (head s)) = head s"
  using assms
  by (simp add: malloc_grow_def sbrk_def setters Let_def)

text \<open>
  C10. Every public operation keeps the registry a well-formed doubly-linked list: the
  head's prev link is null, \<open>b.next.prev = b\<close> and \<open>b.prev.next = b\<close> wherever the link
  exists, and every block stays reachable from the head. The code does not: after
  \<open>a = malloc(16); b = malloc(SIZE_MAX - 39); c = malloc(16)\<close> the third call has
  written its header over B's at 4152, with \<open>chosen->next = head\<close> pointing at itself.
  The head's prev link is the head, its next link is the head, and block A at 4096,
  whose prev link is the head, is not the head's next and is no longer reachable.
\<close>

theorem malloc_overlays_head_block:
  "malloc heap0 16 = Some (4136, heapA)
   \<and> malloc heapA (- 40) = Some (4192, heapAH)
   \<and> head heapAH = 4152
   \<and> bprev (blocks heapAH 4152) = NULL \<and> bnext (blocks heapAH 4152) = 4096
   \<and> bprev (blocks heapAH 4096) = 4152 \<and> bnext (blocks heapAH 4096) = NULL
   \<and> malloc heapAH 16 = Some (4192, heapAHC)
   \<and> head heapAHC = 4152
   \<and> bprev (blocks heapAHC (head heapAHC)) \<noteq> NULL
   \<and> bprev (blocks heapAHC 4152) = 4152 \<and> bnext (blocks heapAHC 4152) = 4152
   \<and> bprev (blocks heapAHC 4096) = 4152 \<and> bnext (blocks heapAHC 4096) = NULL
   \<and> bnext (blocks heapAHC (bprev (blocks heapAHC 4096))) \<noteq> 4096"
proof -
  have "head heapAH = 4152
      \<and> bprev (blocks heapAH 4152) = NULL \<and> bnext (blocks heapAH 4152) = 4096
      \<and> bprev (blocks heapAH 4096) = 4152 \<and> bnext (blocks heapAH 4096) = NULL"
    by (simp add: heapAH_eq)
  moreover have "head heapAHC = 4152
      \<and> bprev (blocks heapAHC (head heapAHC)) \<noteq> NULL
      \<and> bprev (blocks heapAHC 4152) = 4152 \<and> bnext (blocks heapAHC 4152) = 4152
      \<and> bprev (blocks heapAHC 4096) = 4152 \<and> bnext (blocks heapAHC 4096) = NULL
      \<and> bnext (blocks heapAHC (bprev (blocks heapAHC 4096))) \<noteq> 4096"
    by (simp add: heapAHC_eq)
  ultimately show ?thesis using run_heapA run_heapAH run_heapAHC by blast
qed

text \<open>
  C5. In every reachable state, when \<open>allocated_size - requested_size\<close> is smaller than
  the request, no free block of the registry has that capacity, so skipping the scan
  bypasses nothing. The code does not keep this: after the three calls above and
  \<open>free(c)\<close>, the slack is 96 while the head block is free with capacity 184, and
  \<open>malloc(100)\<close> skips the scan and grows the heap (its result 4248 lies behind the old
  break 4208).
\<close>

theorem malloc_prefilter_skips_fitting_block:
  "malloc heap0 16 = Some (4136, heapA)
   \<and> malloc heapA (- 40) = Some (4192, heapAH)
   \<and> malloc heapAH 16 = Some (4192, heapAHC)
   \<and> free heapAHC 4192 = heapAHC_freed
   \<and> allocated_size heapAHC_freed - requested_size heapAHC_freed = 96
   \<and> allocated_size heapAHC_freed - requested_size heapAHC_freed < 100
   \<and> head heapAHC_freed = 4152
   \<and> bfree (blocks heapAHC_freed (head heapAHC_freed))
   \<and> bsize (blocks heapAHC_freed (head heapAHC_freed)) = 184
   \<and> 100 \<le> bsize (blocks heapAHC_freed (head heapAHC_freed))
   \<and> bptr (blocks heapAHC_freed (head heapAHC_freed)) = 4192
   \<and> brk heapAHC_freed = 4208
   \<and> map_option fst (malloc heapAHC_freed 100) = Some 4248
   \<and> brk (after_malloc heapAHC_freed 100) = 4348"
proof -
  have "allocated_size heapAHC_freed - requested_size heapAHC_freed = 96
      \<and> allocated_size heapAHC_freed - requested_size heapAHC_freed < 100
      \<and> head heapAHC_freed = 4152
      \<and> bfree (blocks heapAHC_freed (head heapAHC_freed))
      \<and> bsize (blocks heapAHC_freed (head heapAHC_freed)) = 184
      \<and> 100 \<le> bsize (blocks heapAHC_freed (head heapAHC_freed))
      \<and> bptr (blocks heapAHC_freed (head heapAHC_freed)) = 4192
      \<and> brk heapAHC_freed = 4208"
    by (simp add: heapAHC_freed_eq)
  moreover have "map_option fst (malloc heapAHC_freed 100) = Some 4248
      \<and> brk (after_malloc heapAHC_freed 100) = 4348"
    by (simp add: heapAHC_freed_eq run_defs)
  moreover have "free heapAHC 4192 = heapAHC_freed"
    by (simp add: heapAHC_freed_def)
  ultimately show ?thesis
    using run_heapA run_heapAH run_heapAHC by blast
qed

text \<open>
  C6. In every reachable state, once a Release and its merging have run to completion,
  no two directly linked blocks are both free. The code does not keep this: after
  \<open>a = malloc(16); b = malloc(SIZE_MAX - 39); free(b); b = malloc(16);
  b = malloc(SIZE_MAX - 39); free(b)\<close> the head block N at 4208 is free and its next
  neighbour B at 4152 is free. (The fourth call splits B and puts N in front of it;
  the fifth gets B's address from \<open>sbrk(0)\<close> and links B in front of N again, so that
  the last release merges B into N without unlinking it.)
\<close>

theorem free_leaves_linked_free_blocks:
  "malloc heap0 16 = Some (4136, heapA)
   \<and> malloc heapA (- 40) = Some (4192, heapAH)
   \<and> free heapAH 4192 = heapAH_freed
   \<and> malloc heapAH_freed 16 = Some (4192, heapANB)
   \<and> malloc heapANB (- 40) = Some (4192, heapANB_grown)
   \<and> \<not> bfree (blocks heapANB_grown (get_addr 4192))
   \<and> free heapANB_grown 4192 = heapANB_freed
   \<and> head heapANB_freed = 4208
   \<and> bfree (blocks heapANB_freed 4208)
   \<and> bnext (blocks heapANB_freed 4208) = 4152
   \<and> bfree (blocks heapANB_freed 4152)"
proof -
  have "head heapANB_freed = 4208
      \<and> bfree (blocks heapANB_freed 4208)
      \<and> bnext (blocks heapANB_freed 4208) = 4152
      \<and> bfree (blocks heapANB_freed 4152)"
    by (simp add: heapANB_freed_eq)
  moreover have "\<not> bfree (blocks heapANB_grown (get_addr 4192))"
    by (simp add: heapANB_grown_eq get_addr_def sizeof_mem_block_def)
  moreover have "free heapANB_grown 4192 = heapANB_freed"
    by (simp add: heapANB_freed_def)
  ultimately show ?thesis
    using run_heapA run_heapAH run_heapAH_freed run_heapANB run_heapANB_grown
    by blast
qed

end
